theory Spec2Isabelle
  imports Complex_Main "HOL-Library.Sublist"
begin

section \<open>Burst-fire tee time booking: the data model\<close>

text \<open>
  The development follows \<^verbatim>\<open>Automated_Tee_Time_Booking.py\<close>. Python floats (epoch
  seconds, latencies in milliseconds) are read as real numbers, so rounding of the
  floating-point operations is outside the model; Python integers are \<open>int\<close>; strings
  are ASCII \<open>string\<close>s. An exception is represented by its text \<open>str(e)\<close>.
\<close>

text \<open>
  \<^verbatim>\<open>BurstConfig\<close> (lines 21-38). \<^verbatim>\<open>cutoff_seconds\<close> is annotated \<open>int\<close> in the
  source but is only ever added to a float, and a JSON file may supply a fraction, so it
  is a real number here.
\<close>

record burst_config =
  burst_offsets :: "int list"
  retry_interval_ms :: int
  max_retry_attempts :: int
  max_concurrent_requests :: int
  booking_window_time :: string
  cutoff_seconds :: real

definition default_burst_offsets :: "int list" where
  "default_burst_offsets = [-70, -40, -10, 10, 40, 70]"

text \<open>\<^verbatim>\<open>BurstConfig()\<close> with every field left at its default, after \<^verbatim>\<open>__post_init__\<close>.\<close>

definition BurstConfig_defaults :: burst_config where
  "BurstConfig_defaults =
     \<lparr> burst_offsets = default_burst_offsets,
       retry_interval_ms = 35,
       max_retry_attempts = 50,
       max_concurrent_requests = 10,
       booking_window_time = ''23:00:00'',
       cutoff_seconds = 30 \<rparr>"

text \<open>\<^verbatim>\<open>BookingAttempt\<close> (lines 40-49).\<close>

record booking_attempt =
  timestamp :: real
  offset_ms :: int
  response_time_ms :: real
  status_code :: "int option"
  success :: bool
  error_message :: "string option"
  round_trip_latency_ms :: "real option"

section \<open>Strings\<close>

text \<open>\<^verbatim>\<open>str.lower()\<close> on ASCII text, and \<^verbatim>\<open>str(n)\<close> for a non-negative integer.\<close>

definition lower_char :: "char \<Rightarrow> char" where
  "lower_char c =
     (case map_of (zip ''ABCDEFGHIJKLMNOPQRSTUVWXYZ'' ''abcdefghijklmnopqrstuvwxyz'') c of
        Some d \<Rightarrow> d
      | None \<Rightarrow> c)"

definition lower :: "string \<Rightarrow> string" where
  "lower s = map lower_char s"

fun str_nat :: "nat \<Rightarrow> string" where
  "str_nat n =
     (if n < 10 then [''0123456789'' ! n]
      else str_nat (n div 10) @ [''0123456789'' ! (n mod 10)])"

declare str_nat.simps [simp del]

text \<open>
  The test of line 270 and line 337:
  \<^verbatim>\<open>"booking not open" in (error_msg or "").lower()\<close>.
  Python's \<^verbatim>\<open>in\<close> on strings is the contiguous-substring test \<^const>\<open>sublist\<close>.
\<close>

definition booking_not_open :: "string option \<Rightarrow> bool" where
  "booking_not_open error_msg =
     sublist ''booking not open'' (lower (case error_msg of None \<Rightarrow> [] | Some m \<Rightarrow> m))"

section \<open>The environment of one unit of work\<close>

text \<open>
  What the network does to one request, seen from \<^verbatim>\<open>_make_booking_request\<close>: a response
  with status and body text, an \<^verbatim>\<open>aiohttp.ClientError\<close> (caught at line 317), or any
  other exception (for instance the \<^verbatim>\<open>asyncio.TimeoutError\<close> of the total timeout),
  which leaves the helper.
\<close>

datatype net_event =
    HttpResponse int string
  | ClientError string
  | OtherException string

text \<open>
  A unit of work observes the world through \<^verbatim>\<open>time.time()\<close> and through its requests.
  \<open>clock env k\<close> is the value of the unit's \<open>k\<close>-th call of \<^verbatim>\<open>time.time()\<close>
  and \<open>net env k date slot\<close> is what happens to its \<open>k\<close>-th request (counting from 0).
  Every interleaving of the event loop is some choice of these two functions per unit.
\<close>

record unit_env =
  clock :: "nat \<Rightarrow> real"
  net :: "nat \<Rightarrow> string \<Rightarrow> string \<Rightarrow> net_event"

text \<open>The lines the unit writes to the logger, without their formatting.\<close>

datatype log_event =
    RetryNotice int
  | AttemptLogged booking_attempt
  | ErrorWarning string
  | ExceptionLogged string

text \<open>
  The effects of a unit so far: clock reads, requests issued, the durations handed to
  \<^verbatim>\<open>asyncio.sleep\<close> and the log lines, oldest first.
\<close>

record unit_state =
  ticks :: nat
  issued :: nat
  slept :: "real list"
  logged :: "log_event list"

definition initial_state :: unit_state where
  "initial_state = \<lparr> ticks = 0, issued = 0, slept = [], logged = [] \<rparr>"

definition time_time :: "unit_env \<Rightarrow> unit_state \<Rightarrow> real \<times> unit_state" where
  "time_time env s = (clock env (ticks s), s\<lparr>ticks := Suc (ticks s)\<rparr>)"

definition asyncio_sleep :: "real \<Rightarrow> unit_state \<Rightarrow> unit_state" where
  "asyncio_sleep d s = s\<lparr>slept := slept s @ [d]\<rparr>"

definition log_line :: "log_event \<Rightarrow> unit_state \<Rightarrow> unit_state" where
  "log_line ev s = s\<lparr>logged := logged s @ [ev]\<rparr>"

section \<open>The request helper\<close>

type_synonym outcome = "bool \<times> int \<times> string option"

text \<open>
  \<^verbatim>\<open>_make_booking_request\<close> (lines 285-318): \<open>Inr\<close> is the returned triple
  \<^verbatim>\<open>(success, status, error text)\<close>, \<open>Inl\<close> the text of an exception that escapes.
\<close>

fun booking_result :: "net_event \<Rightarrow> string + outcome" where
  "booking_result (HttpResponse status body) =
     (if status = 200 then Inr (True, status, None) else Inr (False, status, Some body))"
| "booking_result (ClientError e) = Inr (False, 0, Some e)"
| "booking_result (OtherException e) = Inl e"

definition make_booking_request ::
  "unit_env \<Rightarrow> string \<Rightarrow> string \<Rightarrow> unit_state \<Rightarrow> (string + outcome) \<times> unit_state" where
  "make_booking_request env target_date tee_time s =
     (booking_result (net env (issued s) target_date tee_time), s\<lparr>issued := Suc (issued s)\<rparr>)"

section \<open>The retry loop\<close>

text \<open>The value returned at line 340 when the loop is left through its condition.\<close>

definition retries_exhausted :: "nat \<Rightarrow> outcome" where
  "retries_exhausted retry_count =
     (False, 400,
      Some (''Max retries ('' @ str_nat retry_count @ '') reached or cutoff time exceeded''))"

text \<open>
  The \<^verbatim>\<open>while\<close> loop of \<^verbatim>\<open>_smart_retry\<close> (lines 326-338). Python's \<^verbatim>\<open>and\<close> reads the
  clock only when the count is still below the maximum.
\<close>

function smart_retry_loop ::
  "burst_config \<Rightarrow> unit_env \<Rightarrow> string \<Rightarrow> string \<Rightarrow> real \<Rightarrow> nat \<Rightarrow> unit_state
     \<Rightarrow> (string + outcome) \<times> unit_state" where
  "smart_retry_loop cfg env target_date tee_time cutoff_time retry_count s =
     (if \<not> int retry_count < max_retry_attempts cfg then (Inr (retries_exhausted retry_count), s)
      else
        (case time_time env s of (now, s1) \<Rightarrow>
           if \<not> now < cutoff_time then (Inr (retries_exhausted retry_count), s1)
           else
             (case make_booking_request env target_date tee_time
                     (asyncio_sleep (real_of_int (retry_interval_ms cfg) / 1000) s1) of
                (Inl e, s2) \<Rightarrow> (Inl e, s2)
              | (Inr (ok, status, error_msg), s2) \<Rightarrow>
                  if ok \<or> status \<noteq> 400 then (Inr (ok, status, error_msg), s2)
                  else if \<not> booking_not_open error_msg then (Inr (ok, status, error_msg), s2)
                  else
                    smart_retry_loop cfg env target_date tee_time cutoff_time
                      (Suc retry_count) s2)))"
  by pat_completeness auto
termination
  by (relation "measure (\<lambda>(cfg, env, d, t, c, n, s). nat (max_retry_attempts cfg - int n))") auto

declare smart_retry_loop.simps [simp del]

text \<open>
  The condition under which the unit retries (line 270) and the loop goes on (lines 333
  and 337), on what the network did: status 400 with the marker in the body.
\<close>

definition retryable_rejection :: "net_event \<Rightarrow> bool" where
  "retryable_rejection ev =
     (case ev of
        HttpResponse status body \<Rightarrow> status = 400 \<and> booking_not_open (Some body)
      | _ \<Rightarrow> False)"

text \<open>The effects of one pass through the loop body: clock read, sleep and request.\<close>

definition retry_step :: "burst_config \<Rightarrow> unit_state \<Rightarrow> unit_state" where
  "retry_step cfg s =
     s\<lparr> ticks := Suc (ticks s),
        slept := slept s @ [real_of_int (retry_interval_ms cfg) / 1000],
        issued := Suc (issued s) \<rparr>"

definition smart_retry ::
  "burst_config \<Rightarrow> unit_env \<Rightarrow> string \<Rightarrow> string \<Rightarrow> real \<Rightarrow> unit_state
     \<Rightarrow> (string + outcome) \<times> unit_state" where
  "smart_retry cfg env target_date tee_time initial_start s =
     smart_retry_loop cfg env target_date tee_time (initial_start + cutoff_seconds cfg) 0 s"

section \<open>One unit of work\<close>

text \<open>Line 239: the instant at which the unit is meant to fire, in epoch seconds.\<close>

definition execution_time :: "real \<Rightarrow> int \<Rightarrow> real" where
  "execution_time base_time offset = base_time + real_of_int offset / 1000"

text \<open>
  \<^verbatim>\<open>EnhancedLogger.log_attempt\<close> (lines 74-85). The format \<^verbatim>\<open>:.2f\<close> of the round-trip
  latency raises a \<^verbatim>\<open>TypeError\<close> when the field is still \<^verbatim>\<open>None\<close>; the warning is
  written when the error text is non-empty.
\<close>

definition log_attempt :: "booking_attempt \<Rightarrow> unit_state \<Rightarrow> string + unit_state" where
  "log_attempt attempt s =
     (case round_trip_latency_ms attempt of
        None \<Rightarrow> Inl ''unsupported format string passed to NoneType.__format__''
      | Some rtt \<Rightarrow>
          (case error_message attempt of
             None \<Rightarrow> Inr (log_line (AttemptLogged attempt) s)
           | Some m \<Rightarrow>
               if m = [] then Inr (log_line (AttemptLogged attempt) s)
               else Inr (log_line (ErrorWarning m) (log_line (AttemptLogged attempt) s))))"

text \<open>
  Line 277 inside the \<^verbatim>\<open>try\<close>: the result is the exception text if one was raised, the
  attempt and the state.
\<close>

definition finish_attempt ::
  "booking_attempt \<Rightarrow> unit_state \<Rightarrow> string option \<times> booking_attempt \<times> unit_state" where
  "finish_attempt attempt s =
     (case log_attempt attempt s of
        Inl e \<Rightarrow> (Some e, attempt, s)
      | Inr s' \<Rightarrow> (None, attempt, s'))"

text \<open>
  The body of the \<^verbatim>\<open>try\<close> block (lines 258-277). The attempt is mutated in place, so an
  exception leaves the fields as they were assigned so far.
\<close>

definition attempt_body ::
  "burst_config \<Rightarrow> unit_env \<Rightarrow> string \<Rightarrow> string \<Rightarrow> real \<Rightarrow> booking_attempt \<Rightarrow> unit_state
     \<Rightarrow> string option \<times> booking_attempt \<times> unit_state" where
  "attempt_body cfg env target_date tee_time attempt_start attempt s =
     (case make_booking_request env target_date tee_time s of
        (Inl e, s1) \<Rightarrow> (Some e, attempt, s1)
      | (Inr (ok, status, error_msg), s1) \<Rightarrow>
          (case time_time env s1 of (now, s2) \<Rightarrow>
             let response_time = (now - attempt_start) * 1000;
                 measured = attempt
                   \<lparr> response_time_ms := response_time,
                     status_code := Some status,
                     success := ok,
                     error_message := error_msg,
                     round_trip_latency_ms := Some response_time \<rparr>
             in
               if status = 400 \<and> booking_not_open error_msg then
                 (case smart_retry cfg env target_date tee_time attempt_start
                         (log_line (RetryNotice (offset_ms attempt)) s2) of
                    (Inl e, s3) \<Rightarrow> (Some e, measured, s3)
                  | (Inr (final_ok, final_status, final_error), s3) \<Rightarrow>
                      finish_attempt
                        (measured
                           \<lparr> success := final_ok,
                             status_code := Some final_status,
                             error_message := final_error \<rparr>) s3)
               else finish_attempt measured s2))"

text \<open>\<^verbatim>\<open>_schedule_booking_attempt\<close> (lines 235-283).\<close>

definition schedule_booking_attempt ::
  "burst_config \<Rightarrow> unit_env \<Rightarrow> real \<Rightarrow> int \<Rightarrow> string \<Rightarrow> string \<Rightarrow> unit_state
     \<Rightarrow> booking_attempt \<times> unit_state" where
  "schedule_booking_attempt cfg env base_time offset target_date tee_time s =
     (case time_time env s of (current_time, s1) \<Rightarrow>
        let wait_time = execution_time base_time offset - current_time;
            s2 = (if wait_time > 0 then asyncio_sleep wait_time s1 else s1)
        in
          (case time_time env s2 of (attempt_start, s3) \<Rightarrow>
             let attempt =
                   \<lparr> timestamp = attempt_start,
                     offset_ms = offset,
                     response_time_ms = 0,
                     status_code = None,
                     success = False,
                     error_message = None,
                     round_trip_latency_ms = None \<rparr>
             in
               (case attempt_body cfg env target_date tee_time attempt_start attempt s3 of
                  (None, a, s4) \<Rightarrow> (a, s4)
                | (Some e, a, s4) \<Rightarrow>
                    (a\<lparr>error_message := Some e\<rparr>, log_line (ExceptionLogged e) s4))))"

section \<open>The summary\<close>

text \<open>
  Python's \<^verbatim>\<open>min(xs, key=f)\<close> on a non-empty list: the running minimum is replaced only
  by a strictly smaller key, so the first of several minimal elements is returned.
\<close>

fun py_min_key :: "('a \<Rightarrow> real) \<Rightarrow> 'a \<Rightarrow> 'a list \<Rightarrow> 'a" where
  "py_min_key key best [] = best"
| "py_min_key key best (x # xs) = py_min_key key (if key x < key best then x else best) xs"

text \<open>
  The numbers \<^verbatim>\<open>log_burst_summary\<close> (lines 87-102) writes, before formatting: the two
  counts, the fastest successful attempt when there is a successful one, and the average
  when the filtered list of response times is not empty. The filter of line 99 keeps a
  response time when it is truthy, that is, not \<open>0.0\<close>.
\<close>

record burst_summary =
  n_successful :: nat
  n_failed :: nat
  fastest :: "booking_attempt option"
  avg_response :: "real option"

definition log_burst_summary :: "booking_attempt list \<Rightarrow> burst_summary" where
  "log_burst_summary attempts =
     (let successful = filter success attempts;
          failed = filter (\<lambda>a. \<not> success a) attempts;
          response_times = map response_time_ms (filter (\<lambda>a. response_time_ms a \<noteq> 0) attempts)
      in \<lparr> n_successful = length successful,
           n_failed = length failed,
           fastest = (case successful of [] \<Rightarrow> None | a # rest \<Rightarrow> Some (py_min_key response_time_ms a rest)),
           avg_response =
             (if response_times = [] then None
              else Some (sum_list response_times / real (length response_times))) \<rparr>)"

section \<open>The burst\<close>

datatype py_error =
    ValueError
  | IndexError
  | AttributeError
  | TypeError
  | OSError
  | OverflowError
  | SessionInitError string

text \<open>Sequencing of steps that may raise: the first exception ends the computation.\<close>

definition and_then :: "'e + 'a \<Rightarrow> ('a \<Rightarrow> 'e + 'b) \<Rightarrow> 'e + 'b" where
  "and_then r f = (case r of Inl e \<Rightarrow> Inl e | Inr v \<Rightarrow> f v)"

text \<open>\<^verbatim>\<open>str.split(':')\<close>.\<close>

fun split_on :: "char \<Rightarrow> string \<Rightarrow> string list" where
  "split_on sep [] = [[]]"
| "split_on sep (c # cs) =
     (if c = sep then [] # split_on sep cs
      else (case split_on sep cs of [] \<Rightarrow> [[c]] | p # ps \<Rightarrow> (c # p) # ps))"

text \<open>
  \<^verbatim>\<open>int(s)\<close> on an ASCII string: surrounding whitespace is dropped, one sign is allowed,
  and single underscores may stand between digits.
\<close>

definition is_digit :: "char \<Rightarrow> bool" where
  "is_digit c = (c \<in> set ''0123456789'')"

definition digit_value :: "char \<Rightarrow> nat" where
  "digit_value c = (case map_of (zip ''0123456789'' [0, 1, 2, 3, 4, 5, 6, 7, 8, 9]) c of
      Some d \<Rightarrow> d | None \<Rightarrow> 0)"

definition is_space :: "char \<Rightarrow> bool" where
  "is_space c = (c \<in> set [CHR '' '', CHR 0x09, CHR 0x0A, CHR 0x0B, CHR 0x0C, CHR 0x0D])"

definition strip :: "string \<Rightarrow> string" where
  "strip s = rev (dropWhile is_space (rev (dropWhile is_space s)))"

fun parse_digits :: "nat \<Rightarrow> string \<Rightarrow> nat option" where
  "parse_digits acc [] = Some acc"
| "parse_digits acc [c] = (if is_digit c then Some (10 * acc + digit_value c) else None)"
| "parse_digits acc (c # d # rest) =
     (if is_digit c then parse_digits (10 * acc + digit_value c) (d # rest)
      else if c = CHR ''_'' \<and> is_digit d then parse_digits acc (d # rest)
      else None)"

definition unsigned_int :: "string \<Rightarrow> nat option" where
  "unsigned_int s =
     (case s of [] \<Rightarrow> None | c # _ \<Rightarrow> if is_digit c then parse_digits 0 s else None)"

definition py_int :: "string \<Rightarrow> py_error + int" where
  "py_int s =
     (let body = strip s;
          parsed =
            (case body of
               [] \<Rightarrow> None
             | c # rest \<Rightarrow>
                 if c = CHR ''-'' then map_option (\<lambda>n. - int n) (unsigned_int rest)
                 else if c = CHR ''+'' then map_option int (unsigned_int rest)
                 else map_option int (unsigned_int body))
      in case parsed of None \<Rightarrow> Inl ValueError | Some n \<Rightarrow> Inr n)"

text \<open>\<^verbatim>\<open>parts[i]\<close> for a non-negative index.\<close>

definition item :: "'a list \<Rightarrow> nat \<Rightarrow> py_error + 'a" where
  "item xs i = (if i < length xs then Inr (xs ! i) else Inl IndexError)"

text \<open>
  \<^verbatim>\<open>datetime.replace\<close> converts each argument to a C \<^verbatim>\<open>int\<close> (32 bits) before it
  looks at the ranges: an argument that does not fit raises an \<^verbatim>\<open>OverflowError\<close>.
\<close>

definition fits_c_int :: "int \<Rightarrow> bool" where
  "fits_c_int n = (- (2 ^ 31) \<le> n \<and> n < 2 ^ 31)"

text \<open>
  \<^verbatim>\<open>_calculate_booking_time\<close> (lines 221-233). The keyword arguments of \<^verbatim>\<open>replace\<close>
  are evaluated in order; \<^verbatim>\<open>replace\<close> then converts them, and rejects a field out of
  range with a \<^verbatim>\<open>ValueError\<close>. \<open>today_at h m s\<close> stands for the epoch seconds the
  platform gives today's local date at that time of day.
\<close>

definition calculate_booking_time ::
  "burst_config \<Rightarrow> (int \<Rightarrow> int \<Rightarrow> int \<Rightarrow> real) \<Rightarrow> py_error + real" where
  "calculate_booking_time cfg today_at =
     (let booking_time_parts = split_on (CHR '':'') (booking_window_time cfg) in
      and_then (item booking_time_parts 0) (\<lambda>p0.
      and_then (py_int p0) (\<lambda>hour.
      and_then (item booking_time_parts 1) (\<lambda>p1.
      and_then (py_int p1) (\<lambda>minute.
      and_then (item booking_time_parts 2) (\<lambda>p2.
      and_then (py_int p2) (\<lambda>second.
        if \<not> (fits_c_int hour \<and> fits_c_int minute \<and> fits_c_int second)
        then Inl OverflowError
        else if 0 \<le> hour \<and> hour \<le> 23 \<and> 0 \<le> minute \<and> minute \<le> 59
                \<and> 0 \<le> second \<and> second \<le> 59
        then Inr (today_at hour minute second)
        else Inl ValueError)))))))"

text \<open>The nested loops of lines 194-200: one task per offset and target, in this order.\<close>

definition booking_tasks :: "burst_config \<Rightarrow> string list \<Rightarrow> (int \<times> string) list" where
  "booking_tasks cfg target_times =
     concat (map (\<lambda>offset. map (\<lambda>tee_time. (offset, tee_time)) target_times) (burst_offsets cfg))"


text \<open>
  \<^verbatim>\<open>asyncio.gather\<close> returns the results in the order of the tasks. Task number \<open>i\<close>
  runs in its own environment \<open>envs i\<close>. A task of the model always returns an attempt,
  so the \<^verbatim>\<open>isinstance\<close> filter of line 210 keeps every result.
\<close>

definition gather_attempts ::
  "burst_config \<Rightarrow> (nat \<Rightarrow> unit_env) \<Rightarrow> real \<Rightarrow> string \<Rightarrow> (int \<times> string) list
     \<Rightarrow> booking_attempt list" where
  "gather_attempts cfg envs base_time target_date tasks =
     map (\<lambda>(i, (offset, tee_time)).
            fst (schedule_booking_attempt cfg (envs i) base_time offset target_date tee_time
                   initial_state))
       (enumerate 0 tasks)"

text \<open>
  \<^verbatim>\<open>execute_burst_strategy\<close> (lines 186-219): the attempts it returns, with the summary
  it logs.
\<close>

definition execute_burst_strategy ::
  "burst_config \<Rightarrow> string list \<Rightarrow> (int \<Rightarrow> int \<Rightarrow> int \<Rightarrow> real) \<Rightarrow> (nat \<Rightarrow> unit_env) \<Rightarrow> string
     \<Rightarrow> py_error + booking_attempt list \<times> burst_summary" where
  "execute_burst_strategy cfg target_times today_at envs target_date =
     (case calculate_booking_time cfg today_at of
        Inl e \<Rightarrow> Inl e
      | Inr booking_time \<Rightarrow>
          (let attempts =
                 gather_attempts cfg envs booking_time target_date (booking_tasks cfg target_times)
           in Inr (attempts, log_burst_summary attempts)))"

section \<open>Loading the configuration and running the burst\<close>

text \<open>The value \<^verbatim>\<open>json.load\<close> returns. An object is the list of its keys and values.\<close>

datatype json =
    JNull
  | JBool bool
  | JInt int
  | JFloat real
  | JStr string
  | JList "json list"
  | JObj "(string \<times> json) list"

text \<open>
  \<^verbatim>\<open>d.get(key, default)\<close>: only a dictionary has the method, on any other value the
  call raises an \<^verbatim>\<open>AttributeError\<close>.
\<close>

definition dict_get :: "json \<Rightarrow> string \<Rightarrow> json \<Rightarrow> py_error + json" where
  "dict_get d key dflt =
     (case d of
        JObj kvs \<Rightarrow> Inr (case map_of kvs key of None \<Rightarrow> dflt | Some v \<Rightarrow> v)
      | _ \<Rightarrow> Inl AttributeError)"

text \<open>What opening and parsing the file gives (lines 354-355).\<close>

datatype file_result =
    FileNotFound
  | UnreadableFile
  | JSONDecodeError
  | Parsed json

text \<open>
  The values after the first \<^verbatim>\<open>try\<close> statement of \<^verbatim>\<open>run_burst_booking\<close> (lines 352-392).
  Python does not check them against the annotations of \<^verbatim>\<open>BurstConfig\<close>, so each field
  holds whatever JSON value the file gave.
\<close>

record loaded_settings =
  loaded_burst_offsets :: json
  loaded_retry_interval_ms :: json
  loaded_max_retry_attempts :: json
  loaded_max_concurrent_requests :: json
  loaded_booking_window_time :: json
  loaded_cutoff_seconds :: json
  loaded_credentials :: json
  loaded_target_times :: json
  loaded_days_in_advance :: json

definition json_default_offsets :: json where
  "json_default_offsets = JList (map JInt default_burst_offsets)"

definition json_default_credentials :: json where
  "json_default_credentials =
     JObj [(''username'', JStr ''USERNAME''), (''password'', JStr ''PASSWORD'')]"

definition json_default_target_times :: json where
  "json_default_target_times = JList [JStr ''7:33'', JStr ''7:42'']"

definition default_settings :: loaded_settings where
  "default_settings =
     \<lparr> loaded_burst_offsets = json_default_offsets,
       loaded_retry_interval_ms = JInt 35,
       loaded_max_retry_attempts = JInt 50,
       loaded_max_concurrent_requests = JInt 10,
       loaded_booking_window_time = JStr ''23:00:00'',
       loaded_cutoff_seconds = JInt 30,
       loaded_credentials = json_default_credentials,
       loaded_target_times = json_default_target_times,
       loaded_days_in_advance = JInt 2 \<rparr>"

text \<open>\<^verbatim>\<open>__post_init__\<close> (lines 35-38): only \<^verbatim>\<open>None\<close> is replaced by the default offsets.\<close>

definition post_init_offsets :: "json \<Rightarrow> json" where
  "post_init_offsets v = (if v = JNull then json_default_offsets else v)"

text \<open>
  Lines 352-392, with the lines printed. The constructor call of lines 359-365 does not
  pass \<^verbatim>\<open>max_concurrent_requests\<close>, which keeps its default. An error of \<^verbatim>\<open>open\<close>
  other than a missing file, and the \<^verbatim>\<open>AttributeError\<close> of \<^verbatim>\<open>get\<close>, are not handled.
\<close>

definition load_configuration ::
  "string \<Rightarrow> file_result \<Rightarrow> py_error + loaded_settings \<times> string list" where
  "load_configuration config_file file =
     (case file of
        FileNotFound \<Rightarrow>
          Inr (default_settings,
               [''Configuration file '' @ config_file @ '' not found. Using default settings.''])
      | JSONDecodeError \<Rightarrow>
          Inr (default_settings, [''Error parsing '' @ config_file @ ''. Using default settings.''])
      | UnreadableFile \<Rightarrow> Inl OSError
      | Parsed config_data \<Rightarrow>
          and_then (dict_get config_data ''burst_config'' (JObj [])) (\<lambda>burst_cfg.
          and_then (dict_get burst_cfg ''burst_offsets'' json_default_offsets) (\<lambda>offsets.
          and_then (dict_get burst_cfg ''retry_interval_ms'' (JInt 35)) (\<lambda>interval.
          and_then (dict_get burst_cfg ''max_retry_attempts'' (JInt 50)) (\<lambda>retries.
          and_then (dict_get burst_cfg ''booking_window_time'' (JStr ''23:00:00'')) (\<lambda>window.
          and_then (dict_get burst_cfg ''cutoff_seconds'' (JInt 30)) (\<lambda>cutoff.
          and_then (dict_get config_data ''credentials'' json_default_credentials) (\<lambda>creds.
          and_then (dict_get config_data ''target_times'' json_default_target_times) (\<lambda>targets.
          and_then (dict_get config_data ''booking_settings'' (JObj [])) (\<lambda>booking_settings.
          and_then (dict_get booking_settings ''days_in_advance'' (JInt 2)) (\<lambda>days.
            Inr (\<lparr> loaded_burst_offsets = post_init_offsets offsets,
                   loaded_retry_interval_ms = interval,
                   loaded_max_retry_attempts = retries,
                   loaded_max_concurrent_requests = JInt 10,
                   loaded_booking_window_time = window,
                   loaded_cutoff_seconds = cutoff,
                   loaded_credentials = creds,
                   loaded_target_times = targets,
                   loaded_days_in_advance = days \<rparr>, []))))))))))))"

text \<open>
  The loaded values as a \<^typ>\<open>burst_config\<close>, when each has the type its annotation
  names (a whole number or a fraction for the cutoff); \<open>None\<close> otherwise.
\<close>

fun as_int :: "json \<Rightarrow> int option" where
  "as_int (JInt n) = Some n"
| "as_int _ = None"

fun as_str :: "json \<Rightarrow> string option" where
  "as_str (JStr x) = Some x"
| "as_str _ = None"

fun as_real :: "json \<Rightarrow> real option" where
  "as_real (JInt n) = Some (real_of_int n)"
| "as_real (JFloat x) = Some x"
| "as_real _ = None"

fun as_list :: "(json \<Rightarrow> 'a option) \<Rightarrow> json \<Rightarrow> 'a list option" where
  "as_list f (JList vs) =
     (if list_all (\<lambda>v. f v \<noteq> None) vs then Some (map (\<lambda>v. the (f v)) vs) else None)"
| "as_list f _ = None"

definition typed_config :: "loaded_settings \<Rightarrow> burst_config option" where
  "typed_config st =
     (case (as_list as_int (loaded_burst_offsets st), as_int (loaded_retry_interval_ms st),
            as_int (loaded_max_retry_attempts st), as_int (loaded_max_concurrent_requests st),
            as_str (loaded_booking_window_time st), as_real (loaded_cutoff_seconds st)) of
        (Some offsets, Some interval, Some retries, Some concurrent, Some window, Some cutoff) \<Rightarrow>
          Some \<lparr> burst_offsets = offsets,
                 retry_interval_ms = interval,
                 max_retry_attempts = retries,
                 max_concurrent_requests = concurrent,
                 booking_window_time = window,
                 cutoff_seconds = cutoff \<rparr>
      | _ \<Rightarrow> None)"

text \<open>Line 111: an empty (or absent) list of targets is replaced by the two default slots.\<close>

definition booker_target_times :: "string list \<Rightarrow> string list" where
  "booker_target_times target_times = (if target_times = [] then [''7:33'', ''7:42''] else target_times)"

text \<open>
  Whether \<^verbatim>\<open>initialize_session\<close> (lines 117-146) returns or raises; the browser session
  itself is outside the model.
\<close>

datatype session_result = SessionReady | SessionFailure string

text \<open>
  Lines 397-422 of \<^verbatim>\<open>run_burst_booking\<close>, for settings that are loaded and typed: the
  handler of line 418 logs and re-raises whatever the \<^verbatim>\<open>try\<close> block raised.
\<close>

definition run_burst_booking ::
  "burst_config \<Rightarrow> string list \<Rightarrow> string \<Rightarrow> session_result \<Rightarrow> (int \<Rightarrow> int \<Rightarrow> int \<Rightarrow> real)
     \<Rightarrow> (nat \<Rightarrow> unit_env) \<Rightarrow> py_error + booking_attempt list" where
  "run_burst_booking config target_times target_date session today_at envs =
     (case session of
        SessionFailure e \<Rightarrow> Inl (SessionInitError e)
      | SessionReady \<Rightarrow>
          (case execute_burst_strategy config (booker_target_times target_times) today_at envs
                  target_date of
             Inl e \<Rightarrow> Inl e
           | Inr (attempts, summary) \<Rightarrow> Inr (filter success attempts)))"

section \<open>The tasks of a burst side by side\<close>

text \<open>
  Where a task stands between its suspension points: before its fire instant (the
  \<^verbatim>\<open>await\<close> of line 246, or not yet started), inside a request (lines 259 and 329),
  in the sleep before a retry (line 327), or returned.
\<close>

datatype phase = Suspended | InNetwork | RetryWait | Returned

text \<open>
  What the event loop can do next with task \<open>i\<close>: resume it at its fire instant, deliver
  the response of its request (which ends the task or sends it to the retry sleep), or
  wake it from the retry sleep into the next request. The source takes no semaphore and
  never reads \<^const>\<open>max_concurrent_requests\<close>, so no step has a condition on the other
  tasks.
\<close>

datatype loop_event = Fire nat | Respond nat bool | Wake nat

fun loop_step :: "loop_event \<Rightarrow> phase list \<Rightarrow> phase list option" where
  "loop_step (Fire i) ps =
     (if i < length ps \<and> ps ! i = Suspended then Some (ps[i := InNetwork]) else None)"
| "loop_step (Respond i retry) ps =
     (if i < length ps \<and> ps ! i = InNetwork
      then Some (ps[i := (if retry then RetryWait else Returned)]) else None)"
| "loop_step (Wake i) ps =
     (if i < length ps \<and> ps ! i = RetryWait then Some (ps[i := InNetwork]) else None)"

fun loop_run :: "loop_event list \<Rightarrow> phase list \<Rightarrow> phase list option" where
  "loop_run [] ps = Some ps"
| "loop_run (ev # evs) ps = (case loop_step ev ps of None \<Rightarrow> None | Some ps' \<Rightarrow> loop_run evs ps')"

text \<open>The tasks of a burst as \<^verbatim>\<open>asyncio.gather\<close> receives them at line 206.\<close>

definition gathered_tasks :: "burst_config \<Rightarrow> string list \<Rightarrow> phase list" where
  "gathered_tasks cfg target_times = replicate (length (booking_tasks cfg target_times)) Suspended"

definition in_network :: "phase list \<Rightarrow> nat" where
  "in_network ps = length (filter (\<lambda>p. p = InNetwork) ps)"

section \<open>Concrete runs\<close>

text \<open>
  An environment given by the list of its clock readings and the list of what happens to
  its requests, and a finished attempt given by its fields.
\<close>

definition scripted_env :: "real list \<Rightarrow> net_event list \<Rightarrow> unit_env" where
  "scripted_env readings events =
     \<lparr> clock = (\<lambda>k. if k < length readings then readings ! k else 0),
       net = (\<lambda>k target_date tee_time.
                if k < length events then events ! k else OtherException ''no response'') \<rparr>"

definition finished ::
  "real \<Rightarrow> int \<Rightarrow> real \<Rightarrow> int \<Rightarrow> bool \<Rightarrow> string option \<Rightarrow> booking_attempt" where
  "finished fired offset latency status ok detail =
     \<lparr> timestamp = fired, offset_ms = offset, response_time_ms = latency,
       status_code = Some status, success = ok, error_message = detail,
       round_trip_latency_ms = Some latency \<rparr>"

text \<open>Six attempts, two of them successful with latencies 120 ms and 80 ms.\<close>

definition six_attempts :: "booking_attempt list" where
  "six_attempts =
     [finished 1 (-70) 40 400 False (Some ''closed''),
      finished 2 (-40) 120 200 True None,
      finished 3 (-10) 60 409 False (Some ''no availability''),
      finished 4 10 80 200 True None,
      finished 5 40 30 409 False (Some ''no availability''),
      finished 6 70 30 409 False (Some ''no availability'')]"

text \<open>
  Two tasks at offset 0: the request of the first raises a timeout, the second gets
  status 200 after 100 ms.
\<close>

definition mixed_envs :: "nat \<Rightarrow> unit_env" where
  "mixed_envs i =
     (if i = 0 then scripted_env [1, 1] [OtherException ''timed out'']
      else scripted_env [1, 1, 11 / 10] [HttpResponse 200 ''ok''])"

definition mixed_attempts :: "booking_attempt list" where
  "mixed_attempts =
     gather_attempts BurstConfig_defaults mixed_envs 1 ''07-22-2025''
       [(0, ''7:33''), (0, ''7:42'')]"

text \<open>
  Offsets configured as \<open>[10, -10]\<close> around the instant 1: the task listed first fires
  20 ms after the second, and both get status 200 after 80 ms.
\<close>

definition tied_envs :: "nat \<Rightarrow> unit_env" where
  "tied_envs i =
     (if i = 0 then scripted_env [1, 101 / 100, 109 / 100] [HttpResponse 200 ''ok'']
      else scripted_env [99 / 100, 99 / 100, 107 / 100] [HttpResponse 200 ''ok''])"

definition tied_attempts :: "booking_attempt list" where
  "tied_attempts =
     gather_attempts BurstConfig_defaults tied_envs 1 ''07-22-2025''
       [(10, ''7:33''), (-10, ''7:33'')]"

text \<open>
  A server that answers every request with status 400 and the marker, seen through a
  clock that advances 10 ms per reading, and a configuration with three retries.
\<close>

definition closed_env :: unit_env where
  "closed_env = \<lparr> clock = (\<lambda>k. real k / 100), net = (\<lambda>k d t. HttpResponse 400 ''Booking not open yet'') \<rparr>"

definition three_retries :: burst_config where
  "three_retries = BurstConfig_defaults \<lparr> retry_interval_ms := 20, max_retry_attempts := 3 \<rparr>"

text \<open>
  The state in which a unit started from \<^const>\<open>initial_state\<close> calls \<^verbatim>\<open>_smart_retry\<close>
  at line 272: three clock reads, one request, the pre-fire sleep if there was one, and
  the retry notice in the log.
\<close>

definition retry_entry :: "unit_env \<Rightarrow> real \<Rightarrow> int \<Rightarrow> unit_state" where
  "retry_entry env base_time offset =
     \<lparr> ticks = 3, issued = 1,
       slept = (if execution_time base_time offset - clock env 0 > 0
                then [execution_time base_time offset - clock env 0] else []),
       logged = [RetryNotice offset] \<rparr>"

text \<open>
  A server that accepts the first request, one that answers 409, and one whose first
  answer is a retryable rejection and whose second request times out; the last with the
  unit run against it.
\<close>

definition ok_env :: unit_env where
  "ok_env = scripted_env [1, 1, 11 / 10] [HttpResponse 200 ''ok'']"

definition full_env :: unit_env where
  "full_env = scripted_env [1, 1, 11 / 10] [HttpResponse 409 ''no availability'']"

definition flaky_env :: unit_env where
  "flaky_env =
     scripted_env [1, 1, 105 / 100, 106 / 100]
       [HttpResponse 400 ''Booking not open yet'', OtherException ''timed out'']"

definition flaky_run :: "booking_attempt \<times> unit_state" where
  "flaky_run =
     schedule_booking_attempt three_retries flaky_env 1 0 ''07-22-2025'' ''7:33'' initial_state"

text \<open>A request that times out at once, and one that cannot connect.\<close>

definition timeout_env :: unit_env where
  "timeout_env = scripted_env [1, 1] [OtherException ''timed out'']"

definition refused_env :: unit_env where
  "refused_env = scripted_env [1, 1, 11 / 10] [ClientError ''Cannot connect to host'']"




section \<open>Evaluation of concrete runs\<close>

lemmas unit_defs =
  schedule_booking_attempt_def attempt_body_def smart_retry_def time_time_def
  make_booking_request_def asyncio_sleep_def log_line_def initial_state_def
  execution_time_def booking_not_open_def lower_def lower_char_def sublist_code
  retries_exhausted_def finish_attempt_def log_attempt_def scripted_env_def

section \<open>The scheduler\<close>



section \<open>The summary of a burst\<close>

lemma sum_list_filter_nonzero:
  "sum_list (map f (filter (\<lambda>a. f a \<noteq> 0) xs)) = sum_list (map f xs)" for f :: "'a \<Rightarrow> real"
  by (induction xs) simp_all

lemma length_filter_partition:
  "length (filter P xs) + length (filter (\<lambda>a. \<not> P a) xs) = length xs"
  by (induction xs) simp_all

text \<open>
  C5, as the code has it. The summary reports the number of successful and of failed
  attempts, which add up to the number of attempts. The average is taken over the
  attempts whose response time is not zero, successful or not: it is the sum of all
  response times divided by the number of non-zero ones, and it is reported only when
  there is a non-zero one. When no attempt has response time zero, it is the mean over
  all attempts.
\<close>

theorem summary_counts_and_mean:
  "n_successful (log_burst_summary attempts) = length (filter success attempts)
   \<and> n_failed (log_burst_summary attempts) = length (filter (\<lambda>a. \<not> success a) attempts)
   \<and> n_successful (log_burst_summary attempts) + n_failed (log_burst_summary attempts)
       = length attempts
   \<and> avg_response (log_burst_summary attempts) =
       (if filter (\<lambda>a. response_time_ms a \<noteq> 0) attempts = [] then None
        else Some (sum_list (map response_time_ms attempts)
                   / real (length (filter (\<lambda>a. response_time_ms a \<noteq> 0) attempts))))
   \<and> ((\<forall>a \<in> set attempts. response_time_ms a \<noteq> 0) \<and> attempts \<noteq> [] \<longrightarrow>
        avg_response (log_burst_summary attempts) =
          Some (sum_list (map response_time_ms attempts) / real (length attempts)))"
proof -
  have all: "filter (\<lambda>a. response_time_ms a \<noteq> 0) attempts = attempts"
    if "\<forall>a \<in> set attempts. response_time_ms a \<noteq> 0"
    using that by (simp add: filter_id_conv)
  show ?thesis
    by (auto simp add: log_burst_summary_def Let_def sum_list_filter_nonzero
        length_filter_partition all)
qed

theorem summary_counts_and_mean_witness:
  "six_attempts \<noteq> [] \<and> list_all (\<lambda>a. response_time_ms a \<noteq> 0) six_attempts
   \<and> n_successful (log_burst_summary six_attempts) = 2
   \<and> n_failed (log_burst_summary six_attempts) = 4
   \<and> avg_response (log_burst_summary six_attempts) = Some 60"
  using summary_counts_and_mean [of six_attempts]
  by (simp add: six_attempts_def finished_def)

text \<open>
  The claim C5 as stated fails on a burst in which a request raised: that attempt keeps
  response time \<open>0.0\<close> and is left out of the average, so the reported average is 100 ms
  where the mean over both attempts is 50 ms.
\<close>

theorem mean_over_all_counterexample:
  "map response_time_ms mixed_attempts = [0, 100]
   \<and> map success mixed_attempts = [False, True]
   \<and> avg_response (log_burst_summary mixed_attempts) = Some 100
   \<and> sum_list (map response_time_ms mixed_attempts) / real (length mixed_attempts) = 50"
  by (simp add: mixed_attempts_def gather_attempts_def enumerate_eq_zip mixed_envs_def
      unit_defs BurstConfig_defaults_def log_burst_summary_def Let_def)

lemma py_min_key_find:
  "py_min_key key b xs = the (find (\<lambda>x. key x = Min (key ` set (b # xs))) (b # xs))"
proof (induction xs arbitrary: b)
  case Nil
  then show ?case by simp
next
  case (Cons x xs)
  define M where "M = Min (key ` set (b # x # xs))"
  show ?case
  proof (cases "key x < key b")
    case True
    have le: "Min (key ` set (x # xs)) \<le> key x" by simp
    have "Min (key ` set (b # x # xs)) = min (key b) (Min (key ` set (x # xs)))"
      by (simp del: Min_insert add: Min_insert [of "insert (key x) (key ` set xs)" "key b"])
    then have m: "Min (key ` set (x # xs)) = M"
      using True le unfolding M_def by linarith
    have nb: "key b \<noteq> M" using True le m by linarith
    have "py_min_key key b (x # xs) = py_min_key key x xs" using True by simp
    also have "\<dots> = the (find (\<lambda>y. key y = M) (x # xs))"
      using Cons.IH [of x] by (simp only: m)
    also have "\<dots> = the (find (\<lambda>y. key y = M) (b # x # xs))"
      using nb by simp
    finally show ?thesis by (simp only: M_def)
  next
    case False
    have le: "Min (key ` set (b # xs)) \<le> key b" by simp
    have "key ` set (b # x # xs) = insert (key x) (key ` set (b # xs))" by auto
    then have "Min (key ` set (b # x # xs)) = min (key x) (Min (key ` set (b # xs)))"
      by (simp del: Min_insert add: Min_insert [of "insert (key b) (key ` set xs)" "key x"])
    then have m: "Min (key ` set (b # xs)) = M"
      using False le unfolding M_def by linarith
    have skip: "key x \<noteq> M" if "key b \<noteq> M"
      using that False le m by linarith
    have "py_min_key key b (x # xs) = py_min_key key b xs" using False by simp
    also have "\<dots> = the (find (\<lambda>y. key y = M) (b # xs))"
      using Cons.IH [of b] by (simp only: m)
    also have "\<dots> = the (find (\<lambda>y. key y = M) (b # x # xs))"
      using skip by (cases "key b = M") simp_all
    finally show ?thesis by (simp only: M_def)
  qed
qed

lemma find_filter: "find P (filter Q xs) = find (\<lambda>x. Q x \<and> P x) xs"
  by (induction xs) simp_all

text \<open>
  C6, as the code has it. When there is a successful attempt, the attempt reported as
  fastest is successful and has the least response time of the successful attempts;
  among several with that response time it is the one that comes first in the
  collection. Without a successful attempt none is reported.
\<close>

theorem fastest_is_first_minimal:
  "fastest (log_burst_summary attempts) =
     (if filter success attempts = [] then None
      else find (\<lambda>a. success a \<and>
                   response_time_ms a = Min (response_time_ms ` set (filter success attempts)))
             attempts)"
proof (cases "filter success attempts")
  case Nil
  then show ?thesis by (simp add: log_burst_summary_def Let_def)
next
  case (Cons a rest)
  let ?m = "Min (response_time_ms ` set (a # rest))"
  have fin: "find (\<lambda>x. response_time_ms x = ?m) (a # rest) \<noteq> None"
  proof -
    have "?m \<in> response_time_ms ` set (a # rest)" by (rule Min_in) simp_all
    then show ?thesis by (auto simp only: find_None_iff)
  qed
  have "fastest (log_burst_summary attempts) = Some (py_min_key response_time_ms a rest)"
    using Cons by (simp add: log_burst_summary_def Let_def)
  also have "\<dots> = find (\<lambda>x. response_time_ms x = ?m) (a # rest)"
    using fin by (simp only: py_min_key_find) auto
  also have "\<dots> = find (\<lambda>x. success x \<and> response_time_ms x = ?m) attempts"
    by (simp only: Cons[symmetric] find_filter)
  finally show ?thesis using Cons by simp
qed

text \<open>
  The claim C6 as stated fails when two successful attempts have the same response time
  and the one listed first fired later: the first one is reported, not the one with the
  earliest fire timestamp.
\<close>

theorem earliest_tie_break_counterexample:
  "map success tied_attempts = [True, True]
   \<and> map response_time_ms tied_attempts = [80, 80]
   \<and> map timestamp tied_attempts = [101 / 100, 99 / 100]
   \<and> fastest (log_burst_summary tied_attempts) = Some (tied_attempts ! 0)"
  by (simp add: tied_attempts_def gather_attempts_def enumerate_eq_zip tied_envs_def
      unit_defs BurstConfig_defaults_def log_burst_summary_def Let_def)

section \<open>The retry loop\<close>

lemma loop_stop_count:
  "\<not> int n < max_retry_attempts cfg \<Longrightarrow>
   smart_retry_loop cfg env d t cutoff n s = (Inr (retries_exhausted n), s)"
  by (subst smart_retry_loop.simps) simp

lemma loop_stop_cutoff:
  "int n < max_retry_attempts cfg \<Longrightarrow> \<not> clock env (ticks s) < cutoff \<Longrightarrow>
   smart_retry_loop cfg env d t cutoff n s =
     (Inr (retries_exhausted n), s\<lparr>ticks := Suc (ticks s)\<rparr>)"
  by (subst smart_retry_loop.simps) (simp add: time_time_def)

lemma loop_retry:
  "int n < max_retry_attempts cfg \<Longrightarrow> clock env (ticks s) < cutoff \<Longrightarrow>
   retryable_rejection (net env (issued s) d t) \<Longrightarrow>
   smart_retry_loop cfg env d t cutoff n s =
     smart_retry_loop cfg env d t cutoff (Suc n) (retry_step cfg s)"
  by (subst smart_retry_loop.simps)
     (auto simp add: time_time_def make_booking_request_def asyncio_sleep_def retry_step_def
        retryable_rejection_def split: net_event.splits)


lemma loop_exhausts:
  assumes "\<forall>k. retryable_rejection (net env k d t)"
  shows "nat (max_retry_attempts cfg - int c) = m \<Longrightarrow>
    \<exists>n s'. smart_retry_loop cfg env d t cutoff c s = (Inr (retries_exhausted n), s')
       \<and> c \<le> n \<and> int n \<le> max (int c) (max_retry_attempts cfg)
       \<and> issued s' = issued s + (n - c)
       \<and> (\<forall>j<n - c. clock env (ticks s + j) < cutoff)
       \<and> (max_retry_attempts cfg \<le> int n \<or> cutoff \<le> clock env (ticks s + (n - c)))"
proof (induction m arbitrary: c s)
  case 0
  then have "\<not> int c < max_retry_attempts cfg" by simp
  then have "smart_retry_loop cfg env d t cutoff c s = (Inr (retries_exhausted c), s)"
    by (rule loop_stop_count)
  moreover have "max_retry_attempts cfg \<le> int c" using 0 by simp
  ultimately show ?case by (intro exI [of _ c] exI [of _ s]) simp
next
  case (Suc m)
  then have lt: "int c < max_retry_attempts cfg" by simp
  show ?case
  proof (cases "clock env (ticks s) < cutoff")
    case False
    have "smart_retry_loop cfg env d t cutoff c s =
            (Inr (retries_exhausted c), s\<lparr>ticks := Suc (ticks s)\<rparr>)"
      using lt False by (rule loop_stop_cutoff)
    then show ?thesis
      using False by (intro exI [of _ c] exI [of _ "s\<lparr>ticks := Suc (ticks s)\<rparr>"]) simp
  next
    case True
    have r: "retryable_rejection (net env (issued s) d t)" using assms by simp
    have m: "nat (max_retry_attempts cfg - int (Suc c)) = m" using Suc.prems by simp
    obtain n s' where
      run: "smart_retry_loop cfg env d t cutoff (Suc c) (retry_step cfg s) = (Inr (retries_exhausted n), s')"
      and le: "Suc c \<le> n" and bound: "int n \<le> max (int (Suc c)) (max_retry_attempts cfg)"
      and iss: "issued s' = issued (retry_step cfg s) + (n - Suc c)"
      and before: "\<forall>j<n - Suc c. clock env (ticks (retry_step cfg s) + j) < cutoff"
      and stop: "max_retry_attempts cfg \<le> int n \<or> cutoff \<le> clock env (ticks (retry_step cfg s) + (n - Suc c))"
      using Suc.IH [OF m, of "retry_step cfg s"] by blast
    have t: "ticks (retry_step cfg s) = Suc (ticks s)" and i: "issued (retry_step cfg s) = Suc (issued s)"
      by (simp_all add: retry_step_def)
    have b': "\<forall>j<n - c. clock env (ticks s + j) < cutoff"
    proof (intro allI impI)
      fix j assume j: "j < n - c"
      show "clock env (ticks s + j) < cutoff"
      proof (cases j)
        case 0
        then show ?thesis using True by simp
      next
        case (Suc j')
        then have "j' < n - Suc c" using j by simp
        then have "clock env (ticks (retry_step cfg s) + j') < cutoff" using before by simp
        then show ?thesis using t Suc by simp
      qed
    qed
    have s': "ticks s + (n - c) = ticks (retry_step cfg s) + (n - Suc c)" using le t by simp
    have 1: "smart_retry_loop cfg env d t cutoff c s = (Inr (retries_exhausted n), s')"
      using loop_retry [OF lt True r] run by simp
    have 2: "c \<le> n" using le by simp
    have 3: "int n \<le> max (int c) (max_retry_attempts cfg)" using bound lt by simp
    have 4: "issued s' = issued s + (n - c)" using iss i le by simp
    have 5: "max_retry_attempts cfg \<le> int n \<or> cutoff \<le> clock env (ticks s + (n - c))"
      using stop s' by simp
    show ?thesis
      by (intro exI [of _ n] exI [of _ s'] conjI) (rule 1 2 3 4 5 b')+
  qed
qed



lemma str_nat_digits: "set (str_nat n) \<subseteq> set ''0123456789''"
proof (induction n rule: str_nat.induct)
  case (1 n)
  have d: "''0123456789'' ! k \<in> set ''0123456789''" if "k < 10" for k
    using that by (intro nth_mem) simp
  show ?case
  proof (cases "n < 10")
    case True
    then have "str_nat n = [''0123456789'' ! n]" by (subst str_nat.simps) simp
    then show ?thesis using d [OF True] by simp
  next
    case False
    then have "str_nat n = str_nat (n div 10) @ [''0123456789'' ! (n mod 10)]"
      by (subst str_nat.simps) simp
    moreover have "''0123456789'' ! (n mod 10) \<in> set ''0123456789''" by (rule d) simp
    moreover have "set (str_nat (n div 10)) \<subseteq> set ''0123456789''" using 1 False by simp
    ultimately show ?thesis by simp
  qed
qed


lemma lower_char_digits: "\<forall>c \<in> set ''0123456789''. lower_char c = c"
  by (simp add: lower_char_def)

lemma exhausted_text_not_marker:
  "\<not> booking_not_open (Some (''Max retries ('' @ str_nat n @ '') reached or cutoff time exceeded''))"
proof
  let ?msg = "''Max retries ('' @ str_nat n @ '') reached or cutoff time exceeded''"
  assume "booking_not_open (Some ?msg)"
  then have "sublist ''booking not open'' (lower ?msg)" by (simp add: booking_not_open_def)
  then have "set ''booking not open'' \<subseteq> set (lower ?msg)" by (rule set_mono_sublist)
  then have b: "CHR ''b'' \<in> set (lower ?msg)" by simp
  have digits: "\<forall>c \<in> set (str_nat n). lower_char c = c"
    using str_nat_digits [of n] lower_char_digits by blast
  have mid: "map lower_char (str_nat n) = str_nat n"
    using digits by (simp add: map_idI)
  have "lower ?msg = lower ''Max retries ('' @ str_nat n @ lower '') reached or cutoff time exceeded''"
    unfolding lower_def map_append mid ..
  then have "CHR ''b'' \<in> set (lower ''Max retries ('') \<or> CHR ''b'' \<in> set (str_nat n)
      \<or> CHR ''b'' \<in> set (lower '') reached or cutoff time exceeded'')"
    using b by (simp only: set_append Un_iff)
  moreover have "CHR ''b'' \<notin> set (lower ''Max retries ('')"
    by (simp add: lower_def lower_char_def)
  moreover have "CHR ''b'' \<notin> set (lower '') reached or cutoff time exceeded'')"
    by (simp add: lower_def lower_char_def)
  moreover have "CHR ''b'' \<notin> set (str_nat n)"
  proof
    assume "CHR ''b'' \<in> set (str_nat n)"
    then have "CHR ''b'' \<in> set ''0123456789''" using str_nat_digits [of n] by blast
    then show False by simp
  qed
  ultimately show False by blast
qed

text \<open>
  C4. When every request of the job is answered by a retryable rejection, the retry
  loop returns, after a number \<open>n\<close> of retries that is at most \<^const>\<open>max_retry_attempts\<close>
  (and 0 when that is negative). Each of the \<open>n\<close> retries was started while the clock
  read less than the job's own first-attempt instant plus \<^const>\<open>cutoff_seconds\<close>, and
  the loop stopped because \<open>n\<close> reached the maximum or because the clock had reached
  that cutoff, whichever came first. The result is a failure with status 400 whose
  error text names the exhausted budget and does not contain the marker of a retryable
  rejection.
\<close>

theorem retry_budget_exhausted:
  assumes "\<forall>k. retryable_rejection (net env k target_date tee_time)"
  shows "\<exists>n s'. smart_retry cfg env target_date tee_time initial_start s =
           (Inr (False, 400,
                 Some (''Max retries ('' @ str_nat n @ '') reached or cutoff time exceeded'')), s')
     \<and> int n \<le> max 0 (max_retry_attempts cfg)
     \<and> issued s' = issued s + n
     \<and> (\<forall>j<n. clock env (ticks s + j) < initial_start + cutoff_seconds cfg)
     \<and> (max_retry_attempts cfg \<le> int n
         \<or> initial_start + cutoff_seconds cfg \<le> clock env (ticks s + n))
     \<and> \<not> booking_not_open
           (Some (''Max retries ('' @ str_nat n @ '') reached or cutoff time exceeded''))"
proof -
  obtain n s' where
    1: "smart_retry_loop cfg env target_date tee_time (initial_start + cutoff_seconds cfg) 0 s
       = (Inr (retries_exhausted n), s')"
    and 2: "int n \<le> max (int 0) (max_retry_attempts cfg)"
    and 3: "issued s' = issued s + (n - 0)"
    and 4: "\<forall>j<n - 0. clock env (ticks s + j) < initial_start + cutoff_seconds cfg"
    and 5: "max_retry_attempts cfg \<le> int n \<or> initial_start + cutoff_seconds cfg \<le> clock env (ticks s + (n - 0))"
    using loop_exhausts [OF assms refl, where cfg = cfg and c = 0
        and cutoff = "initial_start + cutoff_seconds cfg" and s = s] by blast
  show ?thesis
    using 1 2 3 4 5 exhausted_text_not_marker [of n]
    by (intro exI [of _ n] exI [of _ s']) (simp add: smart_retry_def retries_exhausted_def)
qed

theorem retry_budget_exhausted_witness:
  "(\<forall>k. retryable_rejection (net closed_env k ''07-22-2025'' ''7:33''))
   \<and> (\<exists>n s'. smart_retry three_retries closed_env ''07-22-2025'' ''7:33'' 0 initial_state =
           (Inr (False, 400,
                 Some (''Max retries ('' @ str_nat n @ '') reached or cutoff time exceeded'')), s')
        \<and> int n \<le> 3 \<and> issued s' = n)"
proof -
  have r: "\<forall>k. retryable_rejection (net closed_env k ''07-22-2025'' ''7:33'')"
    by (simp add: retryable_rejection_def closed_env_def booking_not_open_def lower_def
        lower_char_def sublist_code)
  show ?thesis
    using r retry_budget_exhausted [OF r, of three_retries 0 initial_state]
    by (simp add: three_retries_def initial_state_def) blast
qed

section \<open>One unit of work: what the first response decides\<close>

lemma three_retries_eval:
  "fst (smart_retry three_retries closed_env ''07-22-2025'' ''7:33'' 0 initial_state) =
  Inr (False, 400, Some ''Max retries (3) reached or cutoff time exceeded'')"
proof -
  have r: "retryable_rejection (net closed_env k ''07-22-2025'' ''7:33'')" for k
    by (simp add: retryable_rejection_def closed_env_def booking_not_open_def lower_def
        lower_char_def sublist_code)
  have m: "max_retry_attempts three_retries = 3" and c: "cutoff_seconds three_retries = 30"
    by (simp_all add: three_retries_def BurstConfig_defaults_def)
  have k: "clock closed_env j = real j / 100" for j by (simp add: closed_env_def)
  have t: "ticks (retry_step cfg s) = Suc (ticks s)" for cfg s by (simp add: retry_step_def)
  show ?thesis
    by (simp add: smart_retry_def loop_retry r loop_stop_count m c k t initial_state_def
        retries_exhausted_def str_nat.simps)
qed

lemma loop_last:
  "int n < max_retry_attempts cfg \<Longrightarrow> clock env (ticks s) < cutoff \<Longrightarrow>
   \<not> retryable_rejection (net env (issued s) d t) \<Longrightarrow>
   smart_retry_loop cfg env d t cutoff n s =
     (booking_result (net env (issued s) d t), retry_step cfg s)"
  by (subst smart_retry_loop.simps)
     (auto simp add: time_time_def make_booking_request_def asyncio_sleep_def retry_step_def
        retryable_rejection_def split: net_event.splits)

lemma loop_induct [consumes 0, case_names stop_count stop_cutoff last retry]:
  assumes stop_count: "\<And>n s. \<not> int n < max_retry_attempts cfg \<Longrightarrow>
      P n s (Inr (retries_exhausted n), s)"
    and stop_cutoff: "\<And>n s. int n < max_retry_attempts cfg \<Longrightarrow> \<not> clock env (ticks s) < cutoff \<Longrightarrow>
      P n s (Inr (retries_exhausted n), s\<lparr>ticks := Suc (ticks s)\<rparr>)"
    and last: "\<And>n s. int n < max_retry_attempts cfg \<Longrightarrow> clock env (ticks s) < cutoff \<Longrightarrow>
      \<not> retryable_rejection (net env (issued s) d t) \<Longrightarrow>
      P n s (booking_result (net env (issued s) d t), retry_step cfg s)"
    and retry: "\<And>n s res. int n < max_retry_attempts cfg \<Longrightarrow> clock env (ticks s) < cutoff \<Longrightarrow>
      retryable_rejection (net env (issued s) d t) \<Longrightarrow>
      P (Suc n) (retry_step cfg s) res \<Longrightarrow> P n s res"
  shows "P n s (smart_retry_loop cfg env d t cutoff n s)"
proof (induction "nat (max_retry_attempts cfg - int n)" arbitrary: n s)
  case 0
  then have "\<not> int n < max_retry_attempts cfg" by simp
  then show ?case using stop_count [of n s] by (simp add: loop_stop_count)
next
  case (Suc m)
  then have lt: "int n < max_retry_attempts cfg" by simp
  show ?case
  proof (cases "clock env (ticks s) < cutoff")
    case False
    then show ?thesis using stop_cutoff [OF lt False] by (simp add: loop_stop_cutoff lt)
  next
    case True
    show ?thesis
    proof (cases "retryable_rejection (net env (issued s) d t)")
      case False
      then show ?thesis using last [OF lt True False] by (simp add: loop_last lt True)
    next
      case r: True
      have "m = nat (max_retry_attempts cfg - int (Suc n))" using Suc.hyps(2) by simp
      then have "P (Suc n) (retry_step cfg s)
          (smart_retry_loop cfg env d t cutoff (Suc n) (retry_step cfg s))"
        by (rule Suc.hyps(1))
      then show ?thesis using retry [OF lt True r] by (simp add: loop_retry lt True r)
    qed
  qed
qed

lemma loop_frame:
  "logged (snd (smart_retry_loop cfg env d t c n s)) = logged s
   \<and> issued s \<le> issued (snd (smart_retry_loop cfg env d t c n s))
   \<and> ticks s \<le> ticks (snd (smart_retry_loop cfg env d t c n s))"
  by (induction rule: loop_induct [where P = "\<lambda>n s res. logged (snd res) = logged s
        \<and> issued s \<le> issued (snd res) \<and> ticks s \<le> ticks (snd res)"])
     (simp_all add: retry_step_def)

lemma loop_raising_request:
  "issued s \<le> k \<longrightarrow> k < issued (snd (smart_retry_loop cfg env d t c n s)) \<longrightarrow>
   \<not> retryable_rejection (net env k d t) \<longrightarrow>
   fst (smart_retry_loop cfg env d t c n s) = booking_result (net env k d t)"
proof (rule loop_induct [where P = "\<lambda>n s res. issued s \<le> k \<longrightarrow> k < issued (snd res) \<longrightarrow>
        \<not> retryable_rejection (net env k d t) \<longrightarrow> fst res = booking_result (net env k d t)"],
    goal_cases)
  case (1 n s)
  then show ?case by simp
next
  case (2 n s)
  then show ?case by simp
next
  case (3 n s)
  show ?case
  proof (intro impI)
    assume "issued s \<le> k" "k < issued (snd (booking_result (net env (issued s) d t), retry_step cfg s))"
    then have "k = issued s" by (simp add: retry_step_def)
    then show "fst (booking_result (net env (issued s) d t), retry_step cfg s)
        = booking_result (net env k d t)" by simp
  qed
next
  case (4 n s res)
  show ?case
  proof (intro impI)
    assume a: "issued s \<le> k" "k < issued (snd res)" "\<not> retryable_rejection (net env k d t)"
    then have "k \<noteq> issued s" using 4(3) by auto
    then have "issued (retry_step cfg s) \<le> k" using a by (simp add: retry_step_def)
    then show "fst res = booking_result (net env k d t)" using 4(4) a by simp
  qed
qed


lemmas unit_unfold =
  schedule_booking_attempt_def attempt_body_def time_time_def make_booking_request_def
  asyncio_sleep_def log_line_def initial_state_def finish_attempt_def log_attempt_def Let_def
  numeral_2_eq_2

lemma unit_success:
  assumes "net env 0 d t = HttpResponse 200 body"
  shows "case schedule_booking_attempt cfg env base offset d t initial_state of (a, s') \<Rightarrow>
     success a \<and> status_code a = Some 200 \<and> error_message a = None \<and> issued s' = 1
     \<and> RetryNotice offset \<notin> set (logged s') \<and> timestamp a = clock env 1
     \<and> response_time_ms a = (clock env 2 - clock env 1) * 1000 \<and> offset_ms a = offset"
  using assms by (simp add: unit_unfold)

lemma unit_terminal:
  assumes "net env 0 d t = HttpResponse st body" "st \<noteq> 200"
    "\<not> (st = 400 \<and> booking_not_open (Some body))"
  shows "case schedule_booking_attempt cfg env base offset d t initial_state of (a, s') \<Rightarrow>
     \<not> success a \<and> status_code a = Some st \<and> error_message a = Some body \<and> issued s' = 1
     \<and> RetryNotice offset \<notin> set (logged s') \<and> timestamp a = clock env 1
     \<and> response_time_ms a = (clock env 2 - clock env 1) * 1000 \<and> offset_ms a = offset"
  using assms by (auto simp add: unit_unfold)

lemma unit_client_error:
  assumes "net env 0 d t = ClientError e"
  shows "case schedule_booking_attempt cfg env base offset d t initial_state of (a, s') \<Rightarrow>
     \<not> success a \<and> status_code a = Some 0 \<and> error_message a = Some e \<and> issued s' = 1
     \<and> RetryNotice offset \<notin> set (logged s') \<and> timestamp a = clock env 1
     \<and> response_time_ms a = (clock env 2 - clock env 1) * 1000 \<and> offset_ms a = offset"
  using assms by (auto simp add: unit_unfold)

lemma unit_exception:
  assumes "net env 0 d t = OtherException e"
  shows "case schedule_booking_attempt cfg env base offset d t initial_state of (a, s') \<Rightarrow>
     \<not> success a \<and> status_code a = None \<and> error_message a = Some e \<and> issued s' = 1
     \<and> response_time_ms a = 0 \<and> round_trip_latency_ms a = None \<and> timestamp a = clock env 1
     \<and> offset_ms a = offset \<and> logged s' = [ExceptionLogged e]"
  using assms by (simp add: unit_unfold)


lemma smart_retry_frame:
  "logged (snd (smart_retry cfg env d t start s)) = logged s
   \<and> issued s \<le> issued (snd (smart_retry cfg env d t start s))"
  using loop_frame [of cfg env d t "start + cutoff_seconds cfg" 0 s] by (simp add: smart_retry_def)


lemma log_attempt_ok:
  assumes "round_trip_latency_ms a = Some r"
  shows "\<exists>s' extra. log_attempt a s = Inr s' \<and> issued s' = issued s \<and> ticks s' = ticks s
           \<and> slept s' = slept s \<and> logged s' = logged s @ AttemptLogged a # extra"
  using assms by (cases "error_message a") (simp_all add: log_attempt_def log_line_def)

lemma finish_attempt_ok:
  assumes "round_trip_latency_ms a = Some r"
  shows "\<exists>s' extra. finish_attempt a s = (None, a, s') \<and> issued s' = issued s
           \<and> ticks s' = ticks s \<and> slept s' = slept s
           \<and> logged s' = logged s @ AttemptLogged a # extra"
proof -
  obtain s' extra where "log_attempt a s = Inr s'" "issued s' = issued s" "ticks s' = ticks s"
    "slept s' = slept s" "logged s' = logged s @ AttemptLogged a # extra"
    using log_attempt_ok [OF assms] by blast
  then show ?thesis by (simp add: finish_attempt_def)
qed

lemma body_exception:
  assumes "net env (issued s) d t = OtherException e"
  shows "attempt_body cfg env d t start a s = (Some e, a, s\<lparr>issued := Suc (issued s)\<rparr>)"
  using assms by (simp add: attempt_body_def make_booking_request_def)

lemma body_no_retry:
  assumes "booking_result (net env (issued s) d t) = Inr (ok, st, msg)"
    and "\<not> (st = 400 \<and> booking_not_open msg)"
  shows "attempt_body cfg env d t start a s =
     finish_attempt
       (a\<lparr> response_time_ms := (clock env (ticks s) - start) * 1000,
           status_code := Some st, success := ok, error_message := msg,
           round_trip_latency_ms := Some ((clock env (ticks s) - start) * 1000) \<rparr>)
       (s\<lparr>issued := Suc (issued s), ticks := Suc (ticks s)\<rparr>)"
  using assms
  by (cases "st = 400") (simp_all add: attempt_body_def make_booking_request_def time_time_def Let_def)

lemma body_retry:
  assumes "booking_result (net env (issued s) d t) = Inr (ok, st, msg)"
    and "st = 400 \<and> booking_not_open msg"
  shows "attempt_body cfg env d t start a s =
     (case smart_retry cfg env d t start
             (s\<lparr>issued := Suc (issued s), ticks := Suc (ticks s),
                logged := logged s @ [RetryNotice (offset_ms a)]\<rparr>) of
        (Inl e, s3) \<Rightarrow>
          (Some e,
           a\<lparr> response_time_ms := (clock env (ticks s) - start) * 1000,
               status_code := Some st, success := ok, error_message := msg,
               round_trip_latency_ms := Some ((clock env (ticks s) - start) * 1000) \<rparr>, s3)
      | (Inr (final_ok, final_status, final_error), s3) \<Rightarrow>
          finish_attempt
            (a\<lparr> response_time_ms := (clock env (ticks s) - start) * 1000,
                status_code := Some st, success := ok, error_message := msg,
                round_trip_latency_ms := Some ((clock env (ticks s) - start) * 1000),
                success := final_ok, status_code := Some final_status,
                error_message := final_error \<rparr>) s3)"
  using assms
  by (simp add: attempt_body_def make_booking_request_def time_time_def Let_def log_line_def
      split: prod.splits sum.splits)

lemma unit_start:
  "schedule_booking_attempt cfg env base offset d t initial_state =
     (case attempt_body cfg env d t (clock env 1)
             \<lparr> timestamp = clock env 1, offset_ms = offset, response_time_ms = 0,
               status_code = None, success = False, error_message = None,
               round_trip_latency_ms = None \<rparr>
             \<lparr> ticks = 2, issued = 0,
               slept = (if execution_time base offset - clock env 0 > 0
                        then [execution_time base offset - clock env 0] else []),
               logged = [] \<rparr> of
        (None, a, s4) \<Rightarrow> (a, s4)
      | (Some e, a, s4) \<Rightarrow> (a\<lparr>error_message := Some e\<rparr>, log_line (ExceptionLogged e) s4))"
  by (simp add: schedule_booking_attempt_def time_time_def asyncio_sleep_def initial_state_def
      Let_def numeral_2_eq_2)

lemma unit_retry:
  assumes "net env 0 d t = HttpResponse 400 body" "booking_not_open (Some body)"
  shows "case schedule_booking_attempt cfg env base offset d t initial_state of (a, s') \<Rightarrow>
     (case smart_retry cfg env d t (clock env 1) (retry_entry env base offset) of
        (Inr (ok, st, msg), s2) \<Rightarrow>
          success a = ok \<and> status_code a = Some st \<and> error_message a = msg \<and> issued s' = issued s2
      | (Inl e, s2) \<Rightarrow>
          \<not> success a \<and> status_code a = Some 400 \<and> error_message a = Some e \<and> issued s' = issued s2)
     \<and> RetryNotice offset \<in> set (logged s') \<and> timestamp a = clock env 1
     \<and> response_time_ms a = (clock env 2 - clock env 1) * 1000 \<and> offset_ms a = offset"
proof -
  define a0 where "a0 = \<lparr> timestamp = clock env 1, offset_ms = offset, response_time_ms = 0,
               status_code = None, success = False, error_message = None,
               round_trip_latency_ms = None \<rparr>"
  define s0 where "s0 = \<lparr> ticks = 2, issued = 0,
               slept = (if execution_time base offset - clock env 0 > 0
                        then [execution_time base offset - clock env 0] else []),
               logged = [] \<rparr>"
  have first: "booking_result (net env (issued s0) d t) = Inr (False, 400, Some body)"
    using assms by (simp add: s0_def)
  have entry: "s0\<lparr>issued := Suc (issued s0), ticks := Suc (ticks s0),
                logged := logged s0 @ [RetryNotice (offset_ms a0)]\<rparr> = retry_entry env base offset"
    by (simp add: retry_entry_def s0_def a0_def)
  obtain r s2 where run: "smart_retry cfg env d t (clock env 1) (retry_entry env base offset) = (r, s2)"
    by (cases "smart_retry cfg env d t (clock env 1) (retry_entry env base offset)")
  have l: "logged s2 = [RetryNotice offset]"
    using smart_retry_frame [of cfg env d t "clock env 1" "retry_entry env base offset"] run
    by (simp add: retry_entry_def)
  have start: "schedule_booking_attempt cfg env base offset d t initial_state =
     (case attempt_body cfg env d t (clock env 1) a0 s0 of
        (None, a, s4) \<Rightarrow> (a, s4)
      | (Some e, a, s4) \<Rightarrow> (a\<lparr>error_message := Some e\<rparr>, log_line (ExceptionLogged e) s4))"
    unfolding a0_def s0_def by (rule unit_start)
  have body: "attempt_body cfg env d t (clock env 1) a0 s0 =
     (case (r, s2) of
        (Inl e, s3) \<Rightarrow>
          (Some e,
           a0\<lparr> response_time_ms := (clock env (ticks s0) - clock env 1) * 1000,
               status_code := Some 400, success := False, error_message := Some body,
               round_trip_latency_ms := Some ((clock env (ticks s0) - clock env 1) * 1000) \<rparr>, s3)
      | (Inr (final_ok, final_status, final_error), s3) \<Rightarrow>
          finish_attempt
            (a0\<lparr> response_time_ms := (clock env (ticks s0) - clock env 1) * 1000,
                status_code := Some 400, success := False, error_message := Some body,
                round_trip_latency_ms := Some ((clock env (ticks s0) - clock env 1) * 1000),
                success := final_ok, status_code := Some final_status,
                error_message := final_error \<rparr>) s3)"
    using body_retry [OF first, of cfg "clock env 1" a0] assms(2) by (simp only: entry run)
  have t2: "ticks s0 = 2" by (simp add: s0_def)
  show ?thesis
  proof (cases r)
    case (Inl e)
    have "schedule_booking_attempt cfg env base offset d t initial_state =
       (a0\<lparr> response_time_ms := (clock env 2 - clock env 1) * 1000,
               status_code := Some 400, success := False, error_message := Some body,
               round_trip_latency_ms := Some ((clock env 2 - clock env 1) * 1000),
               error_message := Some e \<rparr>, log_line (ExceptionLogged e) s2)"
      unfolding start body by (simp add: Inl t2)
    then show ?thesis using l run by (simp add: Inl a0_def log_line_def)
  next
    case (Inr res)
    obtain ok st msg where res: "res = (ok, st, msg)" by (cases res)
    define final where "final = a0\<lparr> response_time_ms := (clock env 2 - clock env 1) * 1000,
                status_code := Some 400, success := False, error_message := Some body,
                round_trip_latency_ms := Some ((clock env 2 - clock env 1) * 1000),
                success := ok, status_code := Some st, error_message := msg \<rparr>"
    have rtt: "round_trip_latency_ms final = Some ((clock env 2 - clock env 1) * 1000)"
      by (simp add: final_def)
    obtain s' extra where fin: "finish_attempt final s2 = (None, final, s')"
      "issued s' = issued s2" "logged s' = logged s2 @ AttemptLogged final # extra"
      using finish_attempt_ok [OF rtt, of s2] by blast
    have "schedule_booking_attempt cfg env base offset d t initial_state = (final, s')"
    proof -
      have "attempt_body cfg env d t (clock env 1) a0 s0 = finish_attempt final s2"
        unfolding body final_def by (simp add: Inr res t2)
      then show ?thesis unfolding start by (simp add: fin)
    qed
    then show ?thesis using l fin run by (simp add: Inr res final_def a0_def)
  qed
qed




lemma marker_case_insensitive:
  "booking_not_open (Some body) =
     (\<exists>pre mid post. body = pre @ mid @ post \<and> lower mid = ''booking not open'')"
proof -
  have "sublist xs (map f ys) = (\<exists>pre mid post. ys = pre @ mid @ post \<and> map f mid = xs)"
    for xs :: string and f ys
    unfolding sublist_def
    by (metis append_eq_map_conv map_append)
  then show ?thesis by (simp add: booking_not_open_def lower_def)
qed

text \<open>
  C3. What the first response of a unit decides. Status 200: the attempt is a success
  and no retry is made (one request, no retry notice). Status 400 with the marker in the
  body: the retry loop is entered, and the attempt carries the loop's final outcome.
  Any other response that is not a success, such as 409: the attempt is a failure with
  that status and body, and no retry is made. The marker is looked for without regard
  to case: the body matches when some part of it, put in lower case, is the marker.
\<close>

theorem first_response_decides_retry:
  "(net env 0 d t = HttpResponse 200 body \<longrightarrow>
      (case schedule_booking_attempt cfg env base offset d t initial_state of (a, s') \<Rightarrow>
         success a \<and> status_code a = Some 200 \<and> error_message a = None
         \<and> issued s' = 1 \<and> RetryNotice offset \<notin> set (logged s')))
   \<and> (net env 0 d t = HttpResponse 400 body \<and> booking_not_open (Some body) \<longrightarrow>
      (case schedule_booking_attempt cfg env base offset d t initial_state of (a, s') \<Rightarrow>
         RetryNotice offset \<in> set (logged s')
         \<and> (case smart_retry cfg env d t (clock env 1) (retry_entry env base offset) of
              (Inr (ok, final_status, final_error), s2) \<Rightarrow>
                success a = ok \<and> status_code a = Some final_status
                \<and> error_message a = final_error \<and> issued s' = issued s2
            | (Inl e, s2) \<Rightarrow>
                \<not> success a \<and> status_code a = Some 400 \<and> error_message a = Some e
                \<and> issued s' = issued s2)))
   \<and> (net env 0 d t = HttpResponse st body \<and> st \<noteq> 200
        \<and> \<not> (st = 400 \<and> booking_not_open (Some body)) \<longrightarrow>
      (case schedule_booking_attempt cfg env base offset d t initial_state of (a, s') \<Rightarrow>
         \<not> success a \<and> status_code a = Some st \<and> error_message a = Some body
         \<and> issued s' = 1 \<and> RetryNotice offset \<notin> set (logged s')))
   \<and> booking_not_open (Some body) =
       (\<exists>pre mid post. body = pre @ mid @ post \<and> lower mid = ''booking not open'')"
proof (intro conjI impI)
  assume "net env 0 d t = HttpResponse 200 body"
  from unit_success [OF this, where cfg = cfg and base = base and offset = offset]
  show "case schedule_booking_attempt cfg env base offset d t initial_state of (a, s') \<Rightarrow>
         success a \<and> status_code a = Some 200 \<and> error_message a = None
         \<and> issued s' = 1 \<and> RetryNotice offset \<notin> set (logged s')"
    by (simp add: case_prod_beta)
next
  assume "net env 0 d t = HttpResponse 400 body \<and> booking_not_open (Some body)"
  then have "net env 0 d t = HttpResponse 400 body" "booking_not_open (Some body)" by simp_all
  from unit_retry [OF this, where cfg = cfg and base = base and offset = offset]
  show "case schedule_booking_attempt cfg env base offset d t initial_state of (a, s') \<Rightarrow>
         RetryNotice offset \<in> set (logged s')
         \<and> (case smart_retry cfg env d t (clock env 1) (retry_entry env base offset) of
              (Inr (ok, final_status, final_error), s2) \<Rightarrow>
                success a = ok \<and> status_code a = Some final_status
                \<and> error_message a = final_error \<and> issued s' = issued s2
            | (Inl e, s2) \<Rightarrow>
                \<not> success a \<and> status_code a = Some 400 \<and> error_message a = Some e
                \<and> issued s' = issued s2)"
    by (simp add: case_prod_beta)
next
  assume "net env 0 d t = HttpResponse st body \<and> st \<noteq> 200
        \<and> \<not> (st = 400 \<and> booking_not_open (Some body))"
  then have "net env 0 d t = HttpResponse st body" "st \<noteq> 200"
    "\<not> (st = 400 \<and> booking_not_open (Some body))" by simp_all
  from unit_terminal [OF this, where cfg = cfg and base = base and offset = offset]
  show "case schedule_booking_attempt cfg env base offset d t initial_state of (a, s') \<Rightarrow>
         \<not> success a \<and> status_code a = Some st \<and> error_message a = Some body
         \<and> issued s' = 1 \<and> RetryNotice offset \<notin> set (logged s')"
    by (simp add: case_prod_beta)
next
  show "booking_not_open (Some body) =
       (\<exists>pre mid post. body = pre @ mid @ post \<and> lower mid = ''booking not open'')"
    by (rule marker_case_insensitive)
qed


lemmas env_eval =
  scripted_env_def ok_env_def full_env_def flaky_env_def closed_env_def three_retries_def
  BurstConfig_defaults_def booking_not_open_def lower_def lower_char_def sublist_code

theorem first_response_decides_retry_witness:
  "success (fst (schedule_booking_attempt three_retries ok_env 1 0 ''07-22-2025'' ''7:33'' initial_state))
   \<and> issued (snd (schedule_booking_attempt three_retries ok_env 1 0 ''07-22-2025'' ''7:33'' initial_state)) = 1
   \<and> booking_not_open (Some ''Booking not open yet'')
   \<and> RetryNotice 0 \<in> set (logged (snd (schedule_booking_attempt three_retries closed_env 1 0
          ''07-22-2025'' ''7:33'' initial_state)))
   \<and> \<not> booking_not_open (Some ''no availability'')
   \<and> status_code (fst (schedule_booking_attempt three_retries full_env 1 0 ''07-22-2025'' ''7:33''
          initial_state)) = Some 409
   \<and> issued (snd (schedule_booking_attempt three_retries full_env 1 0 ''07-22-2025'' ''7:33''
          initial_state)) = 1"
  using
    first_response_decides_retry [where env = ok_env and d = "''07-22-2025''" and t = "''7:33''"
      and body = "''ok''" and cfg = three_retries and base = 1 and offset = 0 and st = 200]
    first_response_decides_retry [where env = closed_env and d = "''07-22-2025''" and t = "''7:33''"
      and body = "''Booking not open yet''" and cfg = three_retries and base = 1 and offset = 0
      and st = 400]
    first_response_decides_retry [where env = full_env and d = "''07-22-2025''" and t = "''7:33''"
      and body = "''no availability''" and cfg = three_retries and base = 1 and offset = 0
      and st = 409]
  by (simp add: env_eval case_prod_beta)

section \<open>One unit of work: requests that fail\<close>

lemma not_retryable_exception: "\<not> retryable_rejection (OtherException e)"
  and not_retryable_client_error: "\<not> retryable_rejection (ClientError e)"
  by (simp_all add: retryable_rejection_def)

lemma retry_later_request:
  assumes first: "net env 0 d t = HttpResponse 400 body" "booking_not_open (Some body)"
    and k: "k < issued (snd (schedule_booking_attempt cfg env base offset d t initial_state))"
    and nr: "\<not> retryable_rejection (net env k d t)"
  shows "fst (smart_retry cfg env d t (clock env 1) (retry_entry env base offset)) =
           booking_result (net env k d t)"
proof -
  obtain r s2 where run: "smart_retry cfg env d t (clock env 1) (retry_entry env base offset) = (r, s2)"
    by (cases "smart_retry cfg env d t (clock env 1) (retry_entry env base offset)")
  have iss: "issued (snd (schedule_booking_attempt cfg env base offset d t initial_state)) = issued s2"
    using unit_retry [OF first, where cfg = cfg and base = base and offset = offset] run
    by (cases r) (auto simp add: case_prod_beta)
  have "retryable_rejection (net env 0 d t)" using first by (simp add: retryable_rejection_def)
  then have "k \<noteq> 0" using nr by (intro notI) simp
  then have lo: "issued (retry_entry env base offset) \<le> k" by (simp add: retry_entry_def)
  have hi: "k < issued (snd (smart_retry_loop cfg env d t (clock env 1 + cutoff_seconds cfg) 0
                 (retry_entry env base offset)))"
    using k iss run by (simp add: smart_retry_def)
  show ?thesis
    using loop_raising_request [of "retry_entry env base offset" k cfg env d t
        "clock env 1 + cutoff_seconds cfg" 0] lo hi nr
    by (simp add: smart_retry_def)
qed

lemma flaky_run_eval:
  "flaky_run =
     (\<lparr> timestamp = 1, offset_ms = 0, response_time_ms = 50, status_code = Some 400,
        success = False, error_message = Some ''timed out'',
        round_trip_latency_ms = Some 50 \<rparr>,
      \<lparr> ticks = 4, issued = 2, slept = [20 / 1000],
        logged = [RetryNotice 0, ExceptionLogged ''timed out''] \<rparr>)"
proof -
  have m: "max_retry_attempts three_retries = 3" "cutoff_seconds three_retries = 30"
    "retry_interval_ms three_retries = 20"
    by (simp_all add: three_retries_def BurstConfig_defaults_def)
  show ?thesis
    by (simp add: flaky_run_def unit_unfold smart_retry_def loop_last m retry_step_def
        retryable_rejection_def flaky_env_def scripted_env_def execution_time_def
        booking_not_open_def lower_def lower_char_def sublist_code)
qed

text \<open>
  C10, as the code has it. When a request of the unit raises an exception that leaves
  the request helper, the unit still returns its attempt, with the success flag false
  and the exception text as error detail. If it was the unit's first request, the status
  code is still \<open>None\<close> and the response time exactly 0; if it was a retry, the attempt
  keeps what the first response assigned, status 400 and the first response's latency.
  When a request ends in a client error that the helper catches, the attempt has status
  0, the error text and the success flag false.
\<close>

theorem escaping_exception_record:
  "(k < issued (snd (schedule_booking_attempt cfg env base offset d t initial_state))
      \<and> net env k d t = OtherException e \<longrightarrow>
      (case schedule_booking_attempt cfg env base offset d t initial_state of (a, s') \<Rightarrow>
         \<not> success a \<and> error_message a = Some e
         \<and> (k = 0 \<longrightarrow> status_code a = None \<and> response_time_ms a = 0)
         \<and> (0 < k \<longrightarrow> status_code a = Some 400
               \<and> response_time_ms a = (clock env 2 - clock env 1) * 1000)))
   \<and> (k < issued (snd (schedule_booking_attempt cfg env base offset d t initial_state))
      \<and> net env k d t = ClientError e \<longrightarrow>
      (case schedule_booking_attempt cfg env base offset d t initial_state of (a, s') \<Rightarrow>
         \<not> success a \<and> status_code a = Some 0 \<and> error_message a = Some e))"
proof -
  let ?u = "schedule_booking_attempt cfg env base offset d t initial_state"
  have one: "k = 0" if "k < issued (snd ?u)" "\<not> retryable_rejection (net env 0 d t)"
  proof (cases "net env 0 d t")
    case (HttpResponse st body)
    show ?thesis
    proof (cases "st = 200")
      case True
      then show ?thesis
        using unit_success [where env = env and d = d and t = t and body = body and cfg = cfg
            and base = base and offset = offset] HttpResponse that(1)
        by (simp add: case_prod_beta)
    next
      case False
      then show ?thesis
        using unit_terminal [where env = env and d = d and t = t and body = body and cfg = cfg
            and base = base and offset = offset and st = st] HttpResponse that
        by (simp add: case_prod_beta retryable_rejection_def)
    qed
  next
    case (ClientError x)
    then show ?thesis
      using unit_client_error [where env = env and d = d and t = t and cfg = cfg
            and base = base and offset = offset and e = x] that(1)
      by (simp add: case_prod_beta)
  next
    case (OtherException x)
    then show ?thesis
      using unit_exception [where env = env and d = d and t = t and cfg = cfg
            and base = base and offset = offset and e = x] that(1)
      by (simp add: case_prod_beta)
  qed
  have exn: "\<not> success (fst ?u) \<and> error_message (fst ?u) = Some e
         \<and> (k = 0 \<longrightarrow> status_code (fst ?u) = None \<and> response_time_ms (fst ?u) = 0)
         \<and> (0 < k \<longrightarrow> status_code (fst ?u) = Some 400
               \<and> response_time_ms (fst ?u) = (clock env 2 - clock env 1) * 1000)"
    if k: "k < issued (snd ?u)" and ev: "net env k d t = OtherException e"
  proof (cases "retryable_rejection (net env 0 d t)")
    case False
    then have "k = 0" using one k by simp
    then show ?thesis
      using unit_exception [where env = env and d = d and t = t and cfg = cfg
            and base = base and offset = offset and e = e] ev
      by (simp add: case_prod_beta)
  next
    case True
    then obtain body where first: "net env 0 d t = HttpResponse 400 body" "booking_not_open (Some body)"
      by (auto simp add: retryable_rejection_def split: net_event.splits)
    have k0: "0 < k" using first ev by (cases k) simp_all
    have "fst (smart_retry cfg env d t (clock env 1) (retry_entry env base offset)) = Inl e"
      using retry_later_request [OF first k] ev by (simp add: not_retryable_exception)
    then show ?thesis
      using unit_retry [OF first, where cfg = cfg and base = base and offset = offset] k0
      by (cases "smart_retry cfg env d t (clock env 1) (retry_entry env base offset)")
         (simp add: case_prod_beta)
  qed
  have cli: "\<not> success (fst ?u) \<and> status_code (fst ?u) = Some 0 \<and> error_message (fst ?u) = Some e"
    if k: "k < issued (snd ?u)" and ev: "net env k d t = ClientError e"
  proof (cases "retryable_rejection (net env 0 d t)")
    case False
    then have "k = 0" using one k by simp
    then show ?thesis
      using unit_client_error [where env = env and d = d and t = t and cfg = cfg
            and base = base and offset = offset and e = e] ev
      by (simp add: case_prod_beta)
  next
    case True
    then obtain body where first: "net env 0 d t = HttpResponse 400 body" "booking_not_open (Some body)"
      by (auto simp add: retryable_rejection_def split: net_event.splits)
    have "fst (smart_retry cfg env d t (clock env 1) (retry_entry env base offset)) =
        Inr (False, 0, Some e)"
      using retry_later_request [OF first k] ev by (simp add: not_retryable_client_error)
    then show ?thesis
      using unit_retry [OF first, where cfg = cfg and base = base and offset = offset]
      by (cases "smart_retry cfg env d t (clock env 1) (retry_entry env base offset)")
         (simp add: case_prod_beta)
  qed
  show ?thesis using exn cli unfolding case_prod_beta by blast
qed


theorem escaping_exception_record_witness:
  "issued (snd flaky_run) = 2
   \<and> net flaky_env 1 ''07-22-2025'' ''7:33'' = OtherException ''timed out''
   \<and> \<not> success (fst flaky_run) \<and> error_message (fst flaky_run) = Some ''timed out''
   \<and> status_code (fst flaky_run) = Some 400
   \<and> net timeout_env 0 ''07-22-2025'' ''7:33'' = OtherException ''timed out''
   \<and> status_code (fst (schedule_booking_attempt three_retries timeout_env 1 0 ''07-22-2025''
         ''7:33'' initial_state)) = None
   \<and> response_time_ms (fst (schedule_booking_attempt three_retries timeout_env 1 0 ''07-22-2025''
         ''7:33'' initial_state)) = 0
   \<and> net refused_env 0 ''07-22-2025'' ''7:33'' = ClientError ''Cannot connect to host''
   \<and> status_code (fst (schedule_booking_attempt three_retries refused_env 1 0 ''07-22-2025''
         ''7:33'' initial_state)) = Some 0"
proof -
  have i2: "issued (snd flaky_run) = 2" by (simp add: flaky_run_eval)
  have e1: "net flaky_env 1 ''07-22-2025'' ''7:33'' = OtherException ''timed out''"
    by (simp add: flaky_env_def scripted_env_def)
  have e2: "net timeout_env 0 ''07-22-2025'' ''7:33'' = OtherException ''timed out''"
    by (simp add: timeout_env_def scripted_env_def)
  have e3: "net refused_env 0 ''07-22-2025'' ''7:33'' = ClientError ''Cannot connect to host''"
    by (simp add: refused_env_def scripted_env_def)
  have i1: "issued (snd (schedule_booking_attempt three_retries timeout_env 1 0 ''07-22-2025''
         ''7:33'' initial_state)) = 1"
    using unit_exception [OF e2, where cfg = three_retries and base = 1 and offset = 0] by (simp add: case_prod_beta)
  have i3: "issued (snd (schedule_booking_attempt three_retries refused_env 1 0 ''07-22-2025''
         ''7:33'' initial_state)) = 1"
    using unit_client_error [OF e3, where cfg = three_retries and base = 1 and offset = 0] by (simp add: case_prod_beta)
  show ?thesis
    using i2 e1 e2 e3 i1 i3
      escaping_exception_record [where k = 1 and cfg = three_retries and env = flaky_env
        and base = 1 and offset = 0 and d = "''07-22-2025''" and t = "''7:33''"
        and e = "''timed out''"]
      escaping_exception_record [where k = 0 and cfg = three_retries and env = timeout_env
        and base = 1 and offset = 0 and d = "''07-22-2025''" and t = "''7:33''"
        and e = "''timed out''"]
      escaping_exception_record [where k = 0 and cfg = three_retries and env = refused_env
        and base = 1 and offset = 0 and d = "''07-22-2025''" and t = "''7:33''"
        and e = "''Cannot connect to host''"]
    by (simp add: case_prod_beta flaky_run_def [symmetric])
qed


text \<open>
  The claim C10 as stated fails when the exception is raised by a retry: the first
  request was answered 400 after 50 ms, the retry timed out, and the attempt has status
  400 and response time 50 ms, not \<open>None\<close> and 0.
\<close>

theorem retry_exception_counterexample:
  "net flaky_env 1 ''07-22-2025'' ''7:33'' = OtherException ''timed out''
   \<and> issued (snd flaky_run) = 2
   \<and> status_code (fst flaky_run) = Some 400
   \<and> response_time_ms (fst flaky_run) = 50
   \<and> error_message (fst flaky_run) = Some ''timed out''"
  by (simp add: flaky_run_eval) (simp add: flaky_env_def scripted_env_def)

section \<open>The burst: one attempt per job\<close>









end
